theory Spec2Isabelle
  imports Main "HOL-Library.Word"
begin

unbundle bit_operations_syntax

section \<open>Formatting into fixed-size character buffers\<close>

text \<open>
  Every string the wrapper stores is written with
  \<^verbatim>\<open>snprintf(buf, sizeof(buf), ...)\<close>: at most \<open>n - 1\<close> bytes of the
  formatted text are kept (the last byte of the buffer holds the terminator).
\<close>

definition snprintf :: "nat \<Rightarrow> string \<Rightarrow> string" where
  "snprintf n s = take (n - 1) s"

definition digit_char :: "nat \<Rightarrow> char" where
  "digit_char d = ''0123456789'' ! d"

text \<open>The conversion \<^verbatim>\<open>%u\<close>: the decimal digits, most significant first.\<close>

function show_nat :: "nat \<Rightarrow> string" where
  "show_nat n =
     (if n < 10 then [digit_char n]
      else show_nat (n div 10) @ [digit_char (n mod 10)])"
  by pat_completeness auto
termination
  by (relation "measure (\<lambda>n. n)") auto

declare show_nat.simps [simp del]

text \<open>The conversion \<^verbatim>\<open>%d\<close>.\<close>

definition show_int :: "int \<Rightarrow> string" where
  "show_int i = (if i < 0 then CHR ''-'' # show_nat (nat (- i)) else show_nat (nat i))"

section \<open>Data of the wrapper\<close>

text \<open>
  \<^verbatim>\<open>dante_device_info_t\<close>. The character arrays hold C strings, modelled by
  their text; the field \<^verbatim>\<open>id\<close> is named \<open>id_num\<close> here.
\<close>

record dante_device_info_t =
  id_num :: int
  name :: string
  model :: string
  product_version :: string
  dante_version :: string
  ip_address :: string
  link_speed :: int
  secondary_ip :: string
  secondary_speed :: int
  is_valid :: int

text \<open>A slot after \<^verbatim>\<open>memset(g_discovered_devices, 0, ...)\<close>.\<close>

definition zero_device_info :: dante_device_info_t where
  "zero_device_info =
     \<lparr>id_num = 0, name = [], model = [], product_version = [], dante_version = [],
      ip_address = [], link_speed = 0, secondary_ip = [], secondary_speed = 0,
      is_valid = 0\<rparr>"

definition MAX_DEVICES :: nat where
  "MAX_DEVICES = 32"

type_synonym aud_error_t = int

definition AUD_SUCCESS :: aud_error_t where
  "AUD_SUCCESS = 0"

text \<open>
  The globals of \<^verbatim>\<open>dante_wrapper.c\<close>. A handle of the SDK is modelled by
  whether it is set (\<open>True\<close>) or \<^verbatim>\<open>NULL\<close>; the browse handle by the
  identifier of its session.

  Modelled from the spec: the provider's browse sessions
  (\<^verbatim>\<open>create_browse_session\<close>, \<^verbatim>\<open>session.start / stop / delete\<close> of the
  consumed provider interface) live in the closed SDK; \<open>browse_sessions\<close> lists
  the sessions that were created and not yet deleted, each with a flag telling
  whether it is browsing.
\<close>

record wrapper_state =
  g_dapi :: bool
  g_runtime :: bool
  g_devices :: bool
  g_device :: bool
  g_env :: bool
  g_browse :: "nat option"
  g_device_scan_active :: int
  g_background_scanning :: int
  g_device_ready :: int
  g_error_buffer :: string
  g_discovered_devices :: "dante_device_info_t list"
  g_device_count :: int
  browse_sessions :: "(nat \<times> bool) list"

definition set_error :: "string \<Rightarrow> wrapper_state \<Rightarrow> wrapper_state" where
  "set_error msg s = s\<lparr>g_error_buffer := snprintf 256 msg\<rparr>"

section \<open>Reading the device table\<close>

text \<open>
  \<^verbatim>\<open>dante_get_device_info(index, info)\<close>. The output pointer is \<open>None\<close> when
  it is \<^verbatim>\<open>NULL\<close> and \<open>Some r\<close> when it points to a record of the caller that
  holds \<open>r\<close>; the result is the return code, the caller's record after the call
  and the globals after the call.
\<close>

definition dante_get_device_info ::
  "int \<Rightarrow> dante_device_info_t option \<Rightarrow> wrapper_state
     \<Rightarrow> int \<times> dante_device_info_t option \<times> wrapper_state" where
  "dante_get_device_info index info s =
     (case info of
        None \<Rightarrow> (- 1, None, set_error ''Invalid info pointer'' s)
      | Some r \<Rightarrow>
          if index < 0 \<or> index \<ge> g_device_count s then
            (- 1, Some r,
             set_error (''Invalid device index: '' @ show_int index @ '' (available: 0-''
                          @ show_int (g_device_count s - 1) @ '')'') s)
          else if is_valid (g_discovered_devices s ! nat index) = 0 then
            (- 1, Some r,
             set_error (''Device at index '' @ show_int index @ '' is not valid'') s)
          else (0, Some (g_discovered_devices s ! nat index), s))"

text \<open>\<^verbatim>\<open>dante_get_discovered_device_count\<close>.\<close>

definition dante_get_discovered_device_count :: "wrapper_state \<Rightarrow> int" where
  "dante_get_discovered_device_count s = g_device_count s"

section \<open>The browse session\<close>

text \<open>
  Modelled from the spec: the session operations of the closed SDK
  (\<^verbatim>\<open>db_browse_new\<close>, \<^verbatim>\<open>db_browse_start_config\<close>, \<^verbatim>\<open>db_browse_stop\<close>,
  \<^verbatim>\<open>db_browse_delete\<close>), as the consumed provider interface describes them:
  creation yields a session or an error, a session is started, stopped and
  deleted. A new session gets an identifier no live session has.
\<close>

definition fresh_session :: "(nat \<times> bool) list \<Rightarrow> nat" where
  "fresh_session ss = Suc (fold max (map fst ss) 0)"

definition db_browse_start :: "nat \<Rightarrow> (nat \<times> bool) list \<Rightarrow> (nat \<times> bool) list" where
  "db_browse_start h ss = map (\<lambda>(k, b). if k = h then (k, True) else (k, b)) ss"

definition db_browse_stop :: "nat \<Rightarrow> (nat \<times> bool) list \<Rightarrow> (nat \<times> bool) list" where
  "db_browse_stop h ss = map (\<lambda>(k, b). if k = h then (k, False) else (k, b)) ss"

definition db_browse_delete :: "nat \<Rightarrow> (nat \<times> bool) list \<Rightarrow> (nat \<times> bool) list" where
  "db_browse_delete h ss = filter (\<lambda>(k, b). k \<noteq> h) ss"

text \<open>
  What the SDK answers to the three fallible calls of one
  \<^verbatim>\<open>dante_start_device_scan\<close>: the codes returned by \<^verbatim>\<open>db_browse_new\<close>,
  \<^verbatim>\<open>db_browse_set_max_sockets\<close> and \<^verbatim>\<open>db_browse_start_config\<close>.
\<close>

record browse_answers =
  new_result :: aud_error_t
  max_sockets_result :: aud_error_t
  start_result :: aud_error_t

text \<open>\<^verbatim>\<open>dante_start_device_scan\<close>: the return code and the globals after the call.\<close>

definition dante_start_device_scan ::
  "browse_answers \<Rightarrow> wrapper_state \<Rightarrow> int \<times> wrapper_state" where
  "dante_start_device_scan a s =
     (if \<not> g_env s then (- 1, set_error ''Dante API not initialized'' s)
      else if g_browse s \<noteq> None then (0, s)
      else if new_result a \<noteq> AUD_SUCCESS then
        (- 1, set_error (''Failed to create browse object: '' @ show_int (new_result a)) s)
      else
        let h = fresh_session (browse_sessions s);
            s1 = s\<lparr>g_browse := Some h, browse_sessions := (h, False) # browse_sessions s\<rparr>
        in
          if max_sockets_result a \<noteq> AUD_SUCCESS then
            (- 1,
             (set_error (''Failed to set max sockets: '' @ show_int (max_sockets_result a)) s1)
               \<lparr>browse_sessions := db_browse_delete h (browse_sessions s1),
                g_browse := None\<rparr>)
          else if start_result a \<noteq> AUD_SUCCESS then
            (- 1,
             (set_error (''Failed to start browse: '' @ show_int (start_result a)) s1)
               \<lparr>browse_sessions := db_browse_delete h (browse_sessions s1),
                g_browse := None\<rparr>)
          else
            (0, s1\<lparr>browse_sessions := db_browse_start h (browse_sessions s1),
                    g_device_scan_active := 1,
                    g_background_scanning := 1\<rparr>))"

text \<open>\<^verbatim>\<open>dante_stop_device_scan\<close>.\<close>

definition dante_stop_device_scan :: "wrapper_state \<Rightarrow> int \<times> wrapper_state" where
  "dante_stop_device_scan s =
     (case g_browse s of
        None \<Rightarrow> (0, s)
      | Some h \<Rightarrow>
          (0, s\<lparr>browse_sessions := db_browse_delete h (db_browse_stop h (browse_sessions s)),
                 g_browse := None,
                 g_device_scan_active := 0,
                 g_background_scanning := 0\<rparr>))"

text \<open>\<^verbatim>\<open>dante_cleanup\<close>.\<close>

definition dante_cleanup :: "wrapper_state \<Rightarrow> wrapper_state" where
  "dante_cleanup s =
     (let s1 = (if g_browse s \<noteq> None then snd (dante_stop_device_scan s) else s)
      in s1\<lparr>g_device := False,
             g_devices := False,
             g_dapi := False,
             g_runtime := False,
             g_env := False,
             g_device_ready := 0,
             g_device_scan_active := 0,
             g_background_scanning := 0,
             g_device_count := 0,
             g_discovered_devices := replicate MAX_DEVICES zero_device_info\<rparr>)"

text \<open>
  The scanner is active when a browse handle is held. Between calls the SDK
  holds exactly the session of that handle, browsing, and no session when the
  scanner is inactive.
\<close>

definition scan_consistent :: "wrapper_state \<Rightarrow> bool" where
  "scan_consistent s =
     (case g_browse s of
        None \<Rightarrow> browse_sessions s = []
      | Some h \<Rightarrow> browse_sessions s = [(h, True)])"

text \<open>
  The device table is an array of \<open>MAX_DEVICES\<close> slots and the count stays
  within it; \<^verbatim>\<open>dante_get_device_info\<close> indexes the array below the count.
\<close>

definition table_ok :: "wrapper_state \<Rightarrow> bool" where
  "table_ok s =
     (length (g_discovered_devices s) = MAX_DEVICES
      \<and> 0 \<le> g_device_count s \<and> g_device_count s \<le> int MAX_DEVICES)"

section \<open>What the SDK reports about a device\<close>

text \<open>
  The SDK is closed; the wrapper sees a browse device through its getters, each
  of which may return \<^verbatim>\<open>NULL\<close> (\<open>None\<close>). An identifier
  (\<^verbatim>\<open>dante_id64_t\<close>) is 64 bits wide.
\<close>

type_synonym dante_id64_t = "64 word"

record dante_version_t =
  major :: nat
  minor :: nat
  bugfix :: nat

record db_browse_device_t =
  device_get_name :: "string option"
  device_get_router_info :: "string option"
  device_get_manufacturer_id :: "dante_id64_t option"
  device_get_model_id :: "dante_id64_t option"
  device_get_default_name :: "string option"
  device_get_router_version :: "dante_version_t option"

text \<open>
  A browse network: the device count it reports (a \<^verbatim>\<open>uint16_t\<close>) and what
  \<^verbatim>\<open>db_browse_network_device_at_index\<close> returns for each index.
\<close>

record db_browse_network_t =
  network_get_num_devices :: "16 word"
  network_device_at_index :: "nat \<Rightarrow> db_browse_device_t option"

text \<open>
  Modelled from the spec: the states of a device connection,
  \<^verbatim>\<open>connection.state() -> {Resolving, Resolved, Active, Error}\<close>; the
  enumeration itself is declared in a header of the SDK that is not part of the
  sources.
\<close>

datatype dr_device_state_t =
  DR_DEVICE_STATE_RESOLVING
  | DR_DEVICE_STATE_RESOLVED
  | DR_DEVICE_STATE_ACTIVE
  | DR_DEVICE_STATE_ERROR

text \<open>
  A routing connection as the wrapper observes it: the state that the
  \<open>k\<close>-th call of \<^verbatim>\<open>dr_device_get_state\<close> returns (counting from 0), and the
  result code and \<^verbatim>\<open>host\<close> field that \<^verbatim>\<open>dr_device_get_address\<close> delivers.
\<close>

record dr_device_t =
  device_get_state :: "nat \<Rightarrow> dr_device_state_t"
  device_get_address :: "aud_error_t \<times> 32 word"

text \<open>
  The functions of the SDK and of the platform that the rebuild calls and whose
  code is not part of the sources, taken as parameters:
  \<^verbatim>\<open>dante_id64_to_dnssd_text\<close> (the text it writes into its buffer),
  \<^verbatim>\<open>dr_device_open_remote\<close> (result code and handle for a device name) and
  \<^verbatim>\<open>ntohl\<close>.
\<close>

record sdk =
  dante_id64_to_dnssd_text :: "dante_id64_t \<Rightarrow> string"
  dr_device_open_remote :: "string \<Rightarrow> aud_error_t \<times> dr_device_t option"
  ntohl :: "32 word \<Rightarrow> 32 word"

section \<open>Rebuilding the device table\<close>

text \<open>The model field (lines 119 to 139 of \<^verbatim>\<open>browse_network_changed_callback\<close>).\<close>

definition device_model :: "sdk \<Rightarrow> db_browse_device_t \<Rightarrow> string" where
  "device_model k device =
     (let router_info = device_get_router_info device;
          mf_id = device_get_manufacturer_id device;
          model_id = device_get_model_id device;
          default_name = device_get_default_name device
      in
        if router_info \<noteq> None \<and> length (the router_info) > 0 then
          snprintf 64 (the router_info)
        else if mf_id \<noteq> None \<and> model_id \<noteq> None then
          snprintf 64 (dante_id64_to_dnssd_text k (the mf_id) @ ''-''
                         @ dante_id64_to_dnssd_text k (the model_id))
        else if default_name \<noteq> None then
          snprintf 64 (the default_name)
        else snprintf 64 ''Unknown Model'')"

definition max_wait_attempts :: nat where
  "max_wait_attempts = 30"

text \<open>
  The polling loop (lines 167 to 187): \<open>state\<close> is the local variable, \<open>None\<close>
  while it is uninitialised; the result is its value when the loop is left.
  Each round that does not leave the loop sleeps 100 ms.
\<close>

function wait_for_resolution ::
  "(nat \<Rightarrow> dr_device_state_t) \<Rightarrow> nat \<Rightarrow> dr_device_state_t option
     \<Rightarrow> dr_device_state_t option" where
  "wait_for_resolution get_state attempt state =
     (if attempt < max_wait_attempts then
        if get_state attempt = DR_DEVICE_STATE_RESOLVED
           \<or> get_state attempt = DR_DEVICE_STATE_ACTIVE then Some (get_state attempt)
        else if get_state attempt = DR_DEVICE_STATE_ERROR then Some (get_state attempt)
        else wait_for_resolution get_state (attempt + 1) (Some (get_state attempt))
      else state)"
  by pat_completeness auto
termination
  by (relation "measure (\<lambda>(get_state, attempt, state). max_wait_attempts - attempt)") auto

declare wait_for_resolution.simps [simp del]

text \<open>The address text (lines 196 to 201).\<close>

definition format_ipv4 :: "32 word \<Rightarrow> string" where
  "format_ipv4 ip_addr =
     show_nat (unat (drop_bit 24 ip_addr AND 0xFF)) @ ''.''
     @ show_nat (unat (drop_bit 16 ip_addr AND 0xFF)) @ ''.''
     @ show_nat (unat (drop_bit 8 ip_addr AND 0xFF)) @ ''.''
     @ show_nat (unat (ip_addr AND 0xFF))"

text \<open>The address field (lines 157 to 219), for the device name stored in the record.\<close>

definition device_ip_address :: "sdk \<Rightarrow> string \<Rightarrow> string" where
  "device_ip_address k device_name =
     (case dr_device_open_remote k device_name of
        (result, None) \<Rightarrow> snprintf 16 ''0.0.0.0''
      | (result, Some routing_device) \<Rightarrow>
          if result = AUD_SUCCESS then
            (let state = wait_for_resolution (device_get_state routing_device) 0 None
             in
               if state = Some DR_DEVICE_STATE_RESOLVED \<or> state = Some DR_DEVICE_STATE_ACTIVE
               then
                 (case device_get_address routing_device of
                    (addr_result, host) \<Rightarrow>
                      if addr_result = AUD_SUCCESS then
                        snprintf 16 (format_ipv4 (ntohl k host))
                      else snprintf 16 ''0.0.0.0'')
               else snprintf 16 ''0.0.0.0'')
          else snprintf 16 ''0.0.0.0'')"

text \<open>
  The body of the loop for one device (lines 103 to 224): the slot \<open>info\<close> as
  the loop leaves it, \<open>count\<close> being \<^verbatim>\<open>g_device_count\<close> when the body starts.
\<close>

definition fill_device_info ::
  "sdk \<Rightarrow> int \<Rightarrow> db_browse_device_t \<Rightarrow> dante_device_info_t \<Rightarrow> dante_device_info_t" where
  "fill_device_info k count device info =
     (let i1 = info\<lparr>id_num := count + 1, is_valid := 1\<rparr>;
          i2 = i1\<lparr>name :=
                 (case device_get_name device of
                    Some n \<Rightarrow> snprintf 64 n
                  | None \<Rightarrow> snprintf 64 (''Unknown Device '' @ show_int (id_num i1)))\<rparr>;
          i3 = i2\<lparr>model := device_model k device\<rparr>;
          i4 = i3\<lparr>dante_version :=
                 (case device_get_router_version device of
                    Some v \<Rightarrow>
                      snprintf 32 (show_nat (major v) @ ''.'' @ show_nat (minor v) @ ''.''
                                     @ show_nat (bugfix v))
                  | None \<Rightarrow> snprintf 32 ''Unknown'')\<rparr>;
          i5 = i4\<lparr>product_version := snprintf 32 ''N/A''\<rparr>;
          i6 = i5\<lparr>ip_address := device_ip_address k (name i5)\<rparr>
      in i6\<lparr>link_speed := - 1\<rparr>)"

text \<open>
  The loop over the reported devices (lines 99 to 226), from index \<open>i\<close> on: a
  \<^verbatim>\<open>NULL\<close> device is skipped, any other fills the slot at
  \<^verbatim>\<open>g_device_count\<close> and increments the count.
\<close>

function rebuild_devices ::
  "sdk \<Rightarrow> db_browse_network_t \<Rightarrow> nat \<Rightarrow> wrapper_state \<Rightarrow> wrapper_state" where
  "rebuild_devices k network i s =
     (if i < unat (network_get_num_devices network) \<and> i < MAX_DEVICES then
        (case network_device_at_index network i of
           None \<Rightarrow> rebuild_devices k network (i + 1) s
         | Some device \<Rightarrow>
             rebuild_devices k network (i + 1)
               (s\<lparr>g_discovered_devices :=
                     (g_discovered_devices s)
                       [nat (g_device_count s) :=
                          fill_device_info k (g_device_count s) device
                            (g_discovered_devices s ! nat (g_device_count s))],
                   g_device_count := g_device_count s + 1\<rparr>))
      else s)"
  by pat_completeness auto
termination
  by (relation "measure (\<lambda>(k, network, i, s). MAX_DEVICES - i)") auto

declare rebuild_devices.simps [simp del]

text \<open>
  \<^verbatim>\<open>browse_network_changed_callback\<close>; \<open>network\<close> is what
  \<^verbatim>\<open>db_browse_get_network\<close> returns for the browse handle.
\<close>

definition browse_network_changed_callback ::
  "sdk \<Rightarrow> db_browse_network_t option \<Rightarrow> wrapper_state \<Rightarrow> wrapper_state" where
  "browse_network_changed_callback k network s =
     (let s0 = s\<lparr>g_discovered_devices := replicate MAX_DEVICES zero_device_info,
                 g_device_count := 0\<rparr>
      in case network of
           None \<Rightarrow> s0
         | Some net \<Rightarrow> rebuild_devices k net 0 s0)"

text \<open>\<^verbatim>\<open>dante_refresh_device_scan\<close>.\<close>

definition dante_refresh_device_scan ::
  "sdk \<Rightarrow> db_browse_network_t option \<Rightarrow> wrapper_state \<Rightarrow> int \<times> wrapper_state" where
  "dante_refresh_device_scan k network s =
     (if g_browse s \<noteq> None then (0, browse_network_changed_callback k network s)
      else (0, s))"

text \<open>
  The devices a rebuild stores, in order: the handles that are not \<^verbatim>\<open>NULL\<close>
  among the indices below the reported count and below \<open>MAX_DEVICES\<close>.
\<close>

definition stored_devices :: "db_browse_network_t \<Rightarrow> nat \<Rightarrow> db_browse_device_t list" where
  "stored_devices network i =
     List.map_filter (network_device_at_index network)
       [i ..< min (unat (network_get_num_devices network)) MAX_DEVICES]"

section \<open>Connecting the local device\<close>

text \<open>
  The waiting loop of \<^verbatim>\<open>dante_connect_local_device\<close> (lines 382 to 391):
  \<open>timeout\<close> is the counter, \<open>slept\<close> the number of \<^verbatim>\<open>sleep(1)\<close> calls made so
  far, which is also the number of state polls made so far. The result tells
  whether the device was seen active and how many seconds were slept.
\<close>

function wait_local_active ::
  "(nat \<Rightarrow> dr_device_state_t) \<Rightarrow> int \<Rightarrow> nat \<Rightarrow> bool \<times> nat" where
  "wait_local_active get_state timeout slept =
     (if timeout > 0 then
        if get_state slept = DR_DEVICE_STATE_ACTIVE then (True, slept)
        else wait_local_active get_state (timeout - 1) (slept + 1)
      else (False, slept))"
  by pat_completeness auto
termination
  by (relation "measure (\<lambda>(get_state, timeout, slept). nat timeout)") auto

declare wait_local_active.simps [simp del]

text \<open>
  What the SDK answers during one \<^verbatim>\<open>dante_connect_local_device\<close>: the code
  returned by \<^verbatim>\<open>dr_device_open_local\<close> and the state of the local device at
  each poll.
\<close>

record local_answers =
  open_local_result :: aud_error_t
  local_get_state :: "nat \<Rightarrow> dr_device_state_t"

text \<open>
  \<^verbatim>\<open>dante_connect_local_device\<close>: the return code, the globals after the call
  and the seconds spent in \<^verbatim>\<open>sleep\<close>.
\<close>

definition dante_connect_local_device ::
  "local_answers \<Rightarrow> wrapper_state \<Rightarrow> int \<times> wrapper_state \<times> nat" where
  "dante_connect_local_device a s =
     (if \<not> g_devices s then (- 1, set_error ''Dante not initialized'' s, 0)
      else if open_local_result a \<noteq> AUD_SUCCESS then
        (- 1,
         set_error (''Failed to connect to local device: '' @ show_int (open_local_result a)) s,
         0)
      else
        (case wait_local_active (local_get_state a) 50 0 of
           (True, slept) \<Rightarrow> (0, s\<lparr>g_device := True, g_device_ready := 1\<rparr>, slept)
         | (False, slept) \<Rightarrow>
             (- 1, set_error ''Device connection timeout'' (s\<lparr>g_device := True\<rparr>), slept)))"

section \<open>Concrete inputs\<close>

text \<open>The globals when the program starts: every static is zero.\<close>

definition startup_state :: wrapper_state where
  "startup_state =
     \<lparr>g_dapi = False, g_runtime = False, g_devices = False, g_device = False, g_env = False,
      g_browse = None, g_device_scan_active = 0, g_background_scanning = 0,
      g_device_ready = 0, g_error_buffer = [],
      g_discovered_devices = replicate MAX_DEVICES zero_device_info,
      g_device_count = 0, browse_sessions = []\<rparr>"

text \<open>The globals after a successful \<^verbatim>\<open>dante_init\<close>: handles set, no scan, empty table.\<close>

definition initialised_state :: wrapper_state where
  "initialised_state =
     \<lparr>g_dapi = True, g_runtime = True, g_devices = True, g_device = False, g_env = True,
      g_browse = None, g_device_scan_active = 0, g_background_scanning = 0,
      g_device_ready = 0, g_error_buffer = [],
      g_discovered_devices = replicate MAX_DEVICES zero_device_info,
      g_device_count = 0, browse_sessions = []\<rparr>"

definition all_succeed :: browse_answers where
  "all_succeed = \<lparr>new_result = 0, max_sockets_result = 0, start_result = 0\<rparr>"

definition start_fails :: browse_answers where
  "start_fails = \<lparr>new_result = 0, max_sockets_result = 0, start_result = 7\<rparr>"

text \<open>
  A sample SDK on a little-endian host: \<^verbatim>\<open>ntohl\<close> swaps the four bytes; the
  identifier text of the two identifiers used below; four devices that can be
  opened by name, of which the first resolves at the fourth poll, the second
  never resolves, the third enters the error state and the last cannot be
  opened.
\<close>

definition swap_bytes32 :: "32 word \<Rightarrow> 32 word" where
  "swap_bytes32 w =
     push_bit 24 (w AND 0xFF) OR push_bit 16 (drop_bit 8 w AND 0xFF)
     OR push_bit 8 (drop_bit 16 w AND 0xFF) OR (drop_bit 24 w AND 0xFF)"

definition sample_id_text :: "dante_id64_t \<Rightarrow> string" where
  "sample_id_text w = (if w = 0xAABB then ''AABB'' else if w = 0xCCDD then ''CCDD'' else ''0000'')"

definition resolving_device :: dr_device_t where
  "resolving_device =
     \<lparr>device_get_state =
        (\<lambda>n. if n < 3 then DR_DEVICE_STATE_RESOLVING else DR_DEVICE_STATE_RESOLVED),
      device_get_address = (0, 0x0500000A)\<rparr>"

definition silent_device :: dr_device_t where
  "silent_device =
     \<lparr>device_get_state = (\<lambda>n. DR_DEVICE_STATE_RESOLVING), device_get_address = (0, 0)\<rparr>"

definition broken_device :: dr_device_t where
  "broken_device =
     \<lparr>device_get_state =
        (\<lambda>n. if n < 2 then DR_DEVICE_STATE_RESOLVING else DR_DEVICE_STATE_ERROR),
      device_get_address = (0, 0)\<rparr>"

definition sample_sdk :: sdk where
  "sample_sdk =
     \<lparr>dante_id64_to_dnssd_text = sample_id_text,
      dr_device_open_remote =
        (\<lambda>n. if n = ''amp-1'' then (0, Some resolving_device)
             else if n = ''amp-2'' then (0, Some silent_device)
             else if n = ''amp-3'' then (0, Some broken_device)
             else (5, None)),
      ntohl = swap_bytes32\<rparr>"

definition amp1 :: db_browse_device_t where
  "amp1 =
     \<lparr>device_get_name = Some ''amp-1'', device_get_router_info = Some ''ULTIMOX4'',
      device_get_manufacturer_id = Some 0xAABB, device_get_model_id = Some 0xCCDD,
      device_get_default_name = Some ''Foo'',
      device_get_router_version = Some \<lparr>major = 4, minor = 2, bugfix = 1\<rparr>\<rparr>"

definition amp2 :: db_browse_device_t where
  "amp2 =
     \<lparr>device_get_name = Some ''amp-2'', device_get_router_info = Some [],
      device_get_manufacturer_id = Some 0xAABB, device_get_model_id = Some 0xCCDD,
      device_get_default_name = Some ''Foo'', device_get_router_version = None\<rparr>"

definition amp3 :: db_browse_device_t where
  "amp3 =
     \<lparr>device_get_name = Some ''amp-3'', device_get_router_info = None,
      device_get_manufacturer_id = Some 0xAABB, device_get_model_id = None,
      device_get_default_name = Some ''Foo'', device_get_router_version = None\<rparr>"

definition nameless :: db_browse_device_t where
  "nameless =
     \<lparr>device_get_name = None, device_get_router_info = None,
      device_get_manufacturer_id = None, device_get_model_id = None,
      device_get_default_name = None, device_get_router_version = None\<rparr>"


definition sample_network :: db_browse_network_t where
  "sample_network =
     \<lparr>network_get_num_devices = 4,
      network_device_at_index =
        (\<lambda>i. if i = 0 then Some amp1 else if i = 1 then Some amp2
             else if i = 2 then Some amp3 else if i = 3 then Some nameless else None)\<rparr>"



text \<open>The globals after a scan was started and the sample network was reported.\<close>

definition scanned_state :: wrapper_state where
  "scanned_state =
     browse_network_changed_callback sample_sdk (Some sample_network)
       (snd (dante_start_device_scan all_succeed initialised_state))"

text \<open>A local device that is active from its eleventh poll on, and one that never is.\<close>

definition slow_local :: local_answers where
  "slow_local =
     \<lparr>open_local_result = 0,
      local_get_state =
        (\<lambda>n. if n < 10 then DR_DEVICE_STATE_RESOLVING else DR_DEVICE_STATE_ACTIVE)\<rparr>"

definition dead_local :: local_answers where
  "dead_local =
     \<lparr>open_local_result = 0, local_get_state = (\<lambda>n. DR_DEVICE_STATE_RESOLVING)\<rparr>"

section \<open>Auxiliary facts\<close>

subsection \<open>Session identifiers\<close>

lemma fold_max_ge: "(a::nat) \<le> fold max xs a"
  by (induction xs arbitrary: a) (auto intro: order_trans [OF max.cobounded2])


lemma fold_max_mem: "x \<in> set xs \<Longrightarrow> (x::nat) \<le> fold max xs a"
proof (induction xs arbitrary: a)
  case Nil then show ?case by simp
next
  case (Cons y ys)
  show ?case
  proof (cases "x = y")
    case True
    have "max y a \<le> fold max ys (max y a)" by (rule fold_max_ge)
    with True show ?thesis by simp
  next
    case False
    with Cons show ?thesis by simp
  qed
qed


lemma fresh_session_new: "(k, b) \<in> set ss \<Longrightarrow> k \<noteq> fresh_session ss"
proof
  assume m: "(k, b) \<in> set ss" and e: "k = fresh_session ss"
  from m have "k \<in> set (map fst ss)" by force
  then have "k \<le> fold max (map fst ss) 0" by (rule fold_max_mem)
  with e show False by (simp add: fresh_session_def)
qed


lemma delete_fresh: "db_browse_delete (fresh_session ss) ((fresh_session ss, b) # ss) = ss"
proof -
  have "filter (\<lambda>(k, b). k \<noteq> fresh_session ss) ss = ss"
    by (rule filter_True) (auto dest: fresh_session_new)
  then show ?thesis by (simp add: db_browse_delete_def)
qed


subsection \<open>The rebuild loop\<close>

lemma stored_devices_done:
  "\<not> (i < unat (network_get_num_devices net) \<and> i < MAX_DEVICES) \<Longrightarrow> stored_devices net i = []"
  by (auto simp: stored_devices_def List.map_filter_simps)


lemma stored_devices_step:
  "i < unat (network_get_num_devices net) \<Longrightarrow> i < MAX_DEVICES \<Longrightarrow>
   stored_devices net i =
     (case network_device_at_index net i of
        None \<Rightarrow> stored_devices net (Suc i)
      | Some d \<Rightarrow> d # stored_devices net (Suc i))"
  by (simp add: stored_devices_def upt_conv_Cons List.map_filter_simps split: option.splits)


lemma length_stored_devices: "i + length (stored_devices net i) \<le> max i MAX_DEVICES"
proof -
  have "length (stored_devices net i)
          \<le> length [i ..< min (unat (network_get_num_devices net)) MAX_DEVICES]"
    unfolding stored_devices_def List.map_filter_def by (simp only: length_map length_filter_le)
  then show ?thesis by simp
qed


lemma rebuild_devices_table:
  assumes "length (g_discovered_devices s) = MAX_DEVICES"
    and "0 \<le> g_device_count s" and "nat (g_device_count s) \<le> i"
  shows "g_device_count (rebuild_devices k net i s)
           = g_device_count s + int (length (stored_devices net i))
     \<and> length (g_discovered_devices (rebuild_devices k net i s)) = MAX_DEVICES
     \<and> (\<forall>j < nat (g_device_count s).
           g_discovered_devices (rebuild_devices k net i s) ! j = g_discovered_devices s ! j)
     \<and> (\<forall>j < length (stored_devices net i).
           g_discovered_devices (rebuild_devices k net i s) ! (nat (g_device_count s) + j)
             = fill_device_info k (g_device_count s + int j) (stored_devices net i ! j)
                 (g_discovered_devices s ! (nat (g_device_count s) + j)))
     \<and> (\<forall>j \<ge> nat (g_device_count s) + length (stored_devices net i).
           g_discovered_devices (rebuild_devices k net i s) ! j = g_discovered_devices s ! j)"
  using assms
proof (induction k net i s rule: rebuild_devices.induct)
  case (1 k net i s)
  let ?c = "nat (g_device_count s)"
  show ?case
  proof (cases "i < unat (network_get_num_devices net) \<and> i < MAX_DEVICES")
    case False
    then have r: "rebuild_devices k net i s = s"
      by (subst rebuild_devices.simps) auto
    from False have d: "stored_devices net i = []" by (rule stored_devices_done)
    show ?thesis using "1.prems" by (simp add: r d)
  next
    case True
    then have lt: "i < unat (network_get_num_devices net)" "i < MAX_DEVICES" by simp_all
    show ?thesis
    proof (cases "network_device_at_index net i")
      case None
      have r: "rebuild_devices k net i s = rebuild_devices k net (Suc i) s"
        by (subst rebuild_devices.simps) (simp add: True None)
      have d: "stored_devices net i = stored_devices net (Suc i)"
        using stored_devices_step [OF lt] None by simp
      have "nat (g_device_count s) \<le> i + 1" using "1.prems" by simp
      from "1.IH"(1) [OF True None "1.prems"(1,2) this]
      show ?thesis by (simp add: r d)
    next
      case (Some dev)
      define s1 where "s1 = s\<lparr>g_discovered_devices :=
                     (g_discovered_devices s)
                       [nat (g_device_count s) :=
                          fill_device_info k (g_device_count s) dev
                            (g_discovered_devices s ! nat (g_device_count s))],
                   g_device_count := g_device_count s + 1\<rparr>"
      have r: "rebuild_devices k net i s = rebuild_devices k net (Suc i) s1"
        by (subst rebuild_devices.simps) (simp add: True Some s1_def)
      have d: "stored_devices net i = dev # stored_devices net (Suc i)"
        using stored_devices_step [OF lt] Some by simp
      have p1: "length (g_discovered_devices s1) = MAX_DEVICES"
        using "1.prems" by (simp add: s1_def)
      have p2: "0 \<le> g_device_count s1" using "1.prems" by (simp add: s1_def)
      have p3: "nat (g_device_count s1) \<le> i + 1" using "1.prems" by (simp add: s1_def)
      have c1: "nat (g_device_count s1) = Suc ?c" using "1.prems" by (simp add: s1_def)
      have cl: "?c < length (g_discovered_devices s)" using "1.prems" lt by simp
      note ih = "1.IH"(2) [OF True Some, folded s1_def, OF p1 p2 p3]
      let ?t' = "g_discovered_devices (rebuild_devices k net (Suc i) s1)"
      let ?ds = "stored_devices net (Suc i)"
      from ih have i1: "g_device_count (rebuild_devices k net (Suc i) s1)
           = g_device_count s1 + int (length ?ds)" by simp
      from ih have i2: "length ?t' = MAX_DEVICES" by simp
      from ih have i3: "\<And>j. j < Suc ?c \<Longrightarrow> ?t' ! j = g_discovered_devices s1 ! j"
        by (simp add: c1)
      from ih have i4: "\<And>j. j < length ?ds \<Longrightarrow> ?t' ! (Suc ?c + j)
             = fill_device_info k (g_device_count s1 + int j) (?ds ! j)
                 (g_discovered_devices s1 ! (Suc ?c + j))"
        by (simp add: c1)
      from ih have i5: "\<And>j. Suc ?c + length ?ds \<le> j \<Longrightarrow> ?t' ! j = g_discovered_devices s1 ! j"
        by (simp add: c1)
      have t1: "\<And>j. j \<noteq> ?c \<Longrightarrow> g_discovered_devices s1 ! j = g_discovered_devices s ! j"
        by (simp add: s1_def)
      have t2: "g_discovered_devices s1 ! ?c
                 = fill_device_info k (g_device_count s) dev (g_discovered_devices s ! ?c)"
        using cl by (simp add: s1_def)
      have g1: "g_device_count s1 = g_device_count s + 1" by (simp add: s1_def)
      have a: "g_device_count (rebuild_devices k net i s)
           = g_device_count s + int (length (stored_devices net i))"
        by (simp add: r d i1 g1)
      have b: "length (g_discovered_devices (rebuild_devices k net i s)) = MAX_DEVICES"
        by (simp add: r i2)
      have c: "\<forall>j < ?c. g_discovered_devices (rebuild_devices k net i s) ! j
                  = g_discovered_devices s ! j"
        by (simp add: r i3 t1)
      have e: "\<forall>j < length (stored_devices net i).
           g_discovered_devices (rebuild_devices k net i s) ! (?c + j)
             = fill_device_info k (g_device_count s + int j) (stored_devices net i ! j)
                 (g_discovered_devices s ! (?c + j))"
      proof (intro allI impI)
        fix j assume j: "j < length (stored_devices net i)"
        show "g_discovered_devices (rebuild_devices k net i s) ! (?c + j)
             = fill_device_info k (g_device_count s + int j) (stored_devices net i ! j)
                 (g_discovered_devices s ! (?c + j))"
        proof (cases j)
          case 0
          then show ?thesis by (simp add: r d i3 t2)
        next
          case (Suc j')
          with j d have "j' < length ?ds" by simp
          from i4 [OF this] show ?thesis
            by (simp add: r d Suc g1 t1 add.commute add.left_commute)
        qed
      qed
      have f: "\<forall>j \<ge> ?c + length (stored_devices net i).
           g_discovered_devices (rebuild_devices k net i s) ! j = g_discovered_devices s ! j"
        by (simp add: r d i5 t1)
      from a b c e f show ?thesis by blast
    qed
  qed
qed



lemma callback_count:
  "g_device_count (browse_network_changed_callback k (Some net) s)
     = int (length (stored_devices net 0))"
  using rebuild_devices_table
    [of "s\<lparr>g_discovered_devices := replicate MAX_DEVICES zero_device_info, g_device_count := 0\<rparr>"
        0 k net]
  by (simp add: browse_network_changed_callback_def)


lemma callback_length:
  "length (g_discovered_devices (browse_network_changed_callback k (Some net) s)) = MAX_DEVICES"
  using rebuild_devices_table
    [of "s\<lparr>g_discovered_devices := replicate MAX_DEVICES zero_device_info, g_device_count := 0\<rparr>"
        0 k net]
  by (simp add: browse_network_changed_callback_def)


lemma stored_devices_le: "length (stored_devices net 0) \<le> MAX_DEVICES"
  using length_stored_devices [of 0 net] by simp


lemma callback_slot:
  assumes "j < length (stored_devices net 0)"
  shows "g_discovered_devices (browse_network_changed_callback k (Some net) s) ! j
           = fill_device_info k (int j) (stored_devices net 0 ! j) zero_device_info"
proof -
  have "j < MAX_DEVICES" using assms stored_devices_le [of net] by simp
  then show ?thesis
    using assms rebuild_devices_table
      [of "s\<lparr>g_discovered_devices := replicate MAX_DEVICES zero_device_info, g_device_count := 0\<rparr>"
        0 k net]
    by (simp add: browse_network_changed_callback_def)
qed


lemma callback_rest:
  assumes "length (stored_devices net 0) \<le> j" and "j < MAX_DEVICES"
  shows "g_discovered_devices (browse_network_changed_callback k (Some net) s) ! j
           = zero_device_info"
  using assms rebuild_devices_table
      [of "s\<lparr>g_discovered_devices := replicate MAX_DEVICES zero_device_info, g_device_count := 0\<rparr>"
        0 k net]
  by (simp add: browse_network_changed_callback_def)


lemma fill_fields:
  "is_valid (fill_device_info k c d info) = 1"
  "id_num (fill_device_info k c d info) = c + 1"
  "model (fill_device_info k c d info) = device_model k d"
  "link_speed (fill_device_info k c d info) = - 1"
  "ip_address (fill_device_info k c d info)
     = device_ip_address k (name (fill_device_info k c d info))"
  by (simp_all add: fill_device_info_def Let_def)






subsection \<open>Decimal text and octets\<close>








subsection \<open>The polling loop\<close>






subsection \<open>The address field\<close>




subsection \<open>Waiting for the local device\<close>

lemma wait_local_never:
  "\<forall>n. g n \<noteq> DR_DEVICE_STATE_ACTIVE \<Longrightarrow> 0 \<le> t \<Longrightarrow> wait_local_active g t n = (False, n + nat t)"
proof (induction g t n rule: wait_local_active.induct)
  case (1 g t n)
  show ?case
  proof (cases "t > 0")
    case True
    with "1.prems" have "wait_local_active g t n = wait_local_active g (t - 1) (n + 1)"
      by (subst wait_local_active.simps) simp
    also have "\<dots> = (False, n + 1 + nat (t - 1))"
      by (rule "1.IH") (use True "1.prems" in simp_all)
    finally show ?thesis using True by (simp add: nat_diff_distrib)
  next
    case False
    with "1.prems" show ?thesis by (subst wait_local_active.simps) simp
  qed
qed

subsection \<open>The sample run\<close>

lemma sample_stored: "stored_devices sample_network 0 = [amp1, amp2, amp3, nameless]"
  by code_simp

lemma scanned_names:
  "name (g_discovered_devices scanned_state ! 0) = ''amp-1''"
  "name (g_discovered_devices scanned_state ! 1) = ''amp-2''"
  "name (g_discovered_devices scanned_state ! 2) = ''amp-3''"
  "name (g_discovered_devices scanned_state ! 3) = ''Unknown Device 4''"
  by code_simp+

lemma scanned_table_ok: "table_ok scanned_state"
  by (simp add: table_ok_def scanned_state_def callback_length callback_count sample_stored
      MAX_DEVICES_def)

lemma scanned_count: "g_device_count scanned_state = 4"
  by (simp add: scanned_state_def callback_count sample_stored)

lemma scanned_valid: "is_valid (g_discovered_devices scanned_state ! 0) = 1"
  by (simp add: scanned_state_def callback_slot sample_stored fill_fields)

lemma started_state:
  "dante_start_device_scan all_succeed initialised_state
     = (0, initialised_state\<lparr>g_browse := Some 1, browse_sessions := [(1, True)],
                              g_device_scan_active := 1, g_background_scanning := 1\<rparr>)"
  by code_simp

lemma scanned_scan:
  "g_browse scanned_state = Some 1" "browse_sessions scanned_state = [(1, True)]"
  "g_device_scan_active scanned_state = 1" "g_background_scanning scanned_state = 1"
  by code_simp+

subsection \<open>What the operations preserve\<close>

lemma rebuild_devices_frame:
  "rebuild_devices k net i s
     = s\<lparr>g_discovered_devices := g_discovered_devices (rebuild_devices k net i s),
         g_device_count := g_device_count (rebuild_devices k net i s)\<rparr>"
proof (induction k net i s rule: rebuild_devices.induct)
  case (1 k net i s)
  show ?case
  proof (cases "i < unat (network_get_num_devices net) \<and> i < MAX_DEVICES")
    case False
    then have "rebuild_devices k net i s = s" by (subst rebuild_devices.simps) auto
    then show ?thesis by simp
  next
    case True
    show ?thesis
    proof (cases "network_device_at_index net i")
      case None
      have "rebuild_devices k net i s = rebuild_devices k net (i + 1) s"
        by (subst rebuild_devices.simps) (simp add: True None)
      with "1.IH"(1) [OF True None] show ?thesis by simp
    next
      case (Some dev)
      define s1 where "s1 = s\<lparr>g_discovered_devices :=
                     (g_discovered_devices s)
                       [nat (g_device_count s) :=
                          fill_device_info k (g_device_count s) dev
                            (g_discovered_devices s ! nat (g_device_count s))],
                   g_device_count := g_device_count s + 1\<rparr>"
      have r: "rebuild_devices k net i s = rebuild_devices k net (i + 1) s1"
        by (subst rebuild_devices.simps) (simp add: True Some s1_def)
      from "1.IH"(2) [OF True Some, folded s1_def]
      have "rebuild_devices k net (i + 1) s1
              = s1\<lparr>g_discovered_devices := g_discovered_devices (rebuild_devices k net (i + 1) s1),
                   g_device_count := g_device_count (rebuild_devices k net (i + 1) s1)\<rparr>" .
      also have "\<dots> = s\<lparr>g_discovered_devices := g_discovered_devices (rebuild_devices k net (i + 1) s1),
                   g_device_count := g_device_count (rebuild_devices k net (i + 1) s1)\<rparr>"
        by (simp add: s1_def)
      finally show ?thesis by (simp add: r)
    qed
  qed
qed

lemma callback_frame:
  "browse_network_changed_callback k network s
     = s\<lparr>g_discovered_devices := g_discovered_devices (browse_network_changed_callback k network s),
         g_device_count := g_device_count (browse_network_changed_callback k network s)\<rparr>"
proof (cases network)
  case None
  then show ?thesis by (simp add: browse_network_changed_callback_def)
next
  case (Some net)
  let ?s0 = "s\<lparr>g_discovered_devices := replicate MAX_DEVICES zero_device_info,
                 g_device_count := 0\<rparr>"
  have "rebuild_devices k net 0 ?s0
          = ?s0\<lparr>g_discovered_devices := g_discovered_devices (rebuild_devices k net 0 ?s0),
                 g_device_count := g_device_count (rebuild_devices k net 0 ?s0)\<rparr>"
    by (rule rebuild_devices_frame)
  then show ?thesis by (simp add: browse_network_changed_callback_def Some)
qed

lemma table_ok_startup: "table_ok startup_state" "table_ok initialised_state"
  by (simp_all add: table_ok_def startup_state_def initialised_state_def)

lemma table_ok_callback: "table_ok (browse_network_changed_callback k network s)"
proof (cases network)
  case None
  then show ?thesis by (simp add: table_ok_def browse_network_changed_callback_def)
next
  case (Some net)
  then show ?thesis
    using stored_devices_le [of net]
    by (simp add: table_ok_def callback_count callback_length)
qed

lemma table_ok_refresh:
  "table_ok s \<Longrightarrow> table_ok (snd (dante_refresh_device_scan k network s))"
  by (simp add: dante_refresh_device_scan_def table_ok_callback)

lemma table_ok_start: "table_ok s \<Longrightarrow> table_ok (snd (dante_start_device_scan a s))"
  by (simp add: table_ok_def dante_start_device_scan_def set_error_def Let_def)

lemma table_ok_stop: "table_ok s \<Longrightarrow> table_ok (snd (dante_stop_device_scan s))"
  by (simp add: table_ok_def dante_stop_device_scan_def split: option.splits)

lemma table_ok_cleanup: "table_ok (dante_cleanup s)"
  by (simp add: table_ok_def dante_cleanup_def Let_def)

lemma table_ok_get:
  "table_ok s \<Longrightarrow> table_ok (snd (snd (dante_get_device_info i info s)))"
  by (simp add: table_ok_def dante_get_device_info_def set_error_def split: option.splits)

lemma table_ok_connect:
  "table_ok s \<Longrightarrow> table_ok (fst (snd (dante_connect_local_device a s)))"
  by (simp add: table_ok_def dante_connect_local_device_def set_error_def
      split: prod.splits bool.splits)

lemma scan_consistent_startup: "scan_consistent startup_state" "scan_consistent initialised_state"
  by (simp_all add: scan_consistent_def startup_state_def initialised_state_def)

lemma scan_consistent_start:
  "scan_consistent s \<Longrightarrow> scan_consistent (snd (dante_start_device_scan a s))"
  by (auto simp: scan_consistent_def dante_start_device_scan_def set_error_def Let_def
      db_browse_start_def db_browse_delete_def split: option.splits)

lemma scan_consistent_stop:
  "scan_consistent s \<Longrightarrow> scan_consistent (snd (dante_stop_device_scan s))"
  by (auto simp: scan_consistent_def dante_stop_device_scan_def db_browse_stop_def
      db_browse_delete_def split: option.splits)

lemma scan_consistent_cleanup:
  "scan_consistent s \<Longrightarrow> scan_consistent (dante_cleanup s)"
  by (auto simp: scan_consistent_def dante_cleanup_def dante_stop_device_scan_def Let_def
      db_browse_stop_def db_browse_delete_def split: option.splits)

lemma scan_consistent_callback:
  "scan_consistent s \<Longrightarrow> scan_consistent (browse_network_changed_callback k network s)"
proof -
  assume a: "scan_consistent s"
  have "g_browse (browse_network_changed_callback k network s) = g_browse s"
    "browse_sessions (browse_network_changed_callback k network s) = browse_sessions s"
    by (subst callback_frame, simp)+
  with a show ?thesis by (simp add: scan_consistent_def split: option.splits)
qed

section \<open>Properties\<close>

text \<open>
  C10. With a null output pointer \<open>dante_get_device_info\<close> fails for every index,
  stores the message "Invalid info pointer" as the last error, writes no record
  and leaves every other global, the device table and the count among them, as
  it was; the result does not depend on the index or on any slot.
\<close>

theorem get_device_info_null_pointer:
  "dante_get_device_info index None s =
     (- 1, None, s\<lparr>g_error_buffer := ''Invalid info pointer''\<rparr>)
   \<and> g_discovered_devices (snd (snd (dante_get_device_info index None s)))
       = g_discovered_devices s
   \<and> g_device_count (snd (snd (dante_get_device_info index None s))) = g_device_count s"
  by (simp add: dante_get_device_info_def set_error_def snprintf_def)







text \<open>
  C3. In a state whose table has its 32 slots and whose count lies within them
  (every operation keeps this, see \<open>table_ok_callback\<close> and its neighbours),
  and with a non-null output pointer, \<open>dante_get_device_info i\<close> returns 0
  exactly when \<open>0 \<le> i < count\<close> and slot \<open>i\<close> is marked valid, and then hands
  out a copy of the stored record and changes no global; for \<open>i < 0\<close> or
  \<open>i \<ge> count\<close> it returns -1 with the index-out-of-range message, and for an
  in-range slot marked invalid it returns -1 with the invalid-record message,
  leaving the caller's record untouched in both cases.
\<close>

theorem get_device_info_by_index:
  assumes "table_ok s"
  shows "(fst (dante_get_device_info i (Some r) s) = 0
            \<longleftrightarrow> 0 \<le> i \<and> i < g_device_count s \<and> is_valid (g_discovered_devices s ! nat i) \<noteq> 0)
     \<and> (0 \<le> i \<and> i < g_device_count s \<and> is_valid (g_discovered_devices s ! nat i) \<noteq> 0
          \<longrightarrow> nat i < length (g_discovered_devices s)
              \<and> dante_get_device_info i (Some r) s = (0, Some (g_discovered_devices s ! nat i), s))
     \<and> (i < 0 \<or> g_device_count s \<le> i
          \<longrightarrow> dante_get_device_info i (Some r) s =
                (- 1, Some r,
                 s\<lparr>g_error_buffer := snprintf 256 (''Invalid device index: '' @ show_int i
                      @ '' (available: 0-'' @ show_int (g_device_count s - 1) @ '')'')\<rparr>))
     \<and> (0 \<le> i \<and> i < g_device_count s \<and> is_valid (g_discovered_devices s ! nat i) = 0
          \<longrightarrow> dante_get_device_info i (Some r) s =
                (- 1, Some r,
                 s\<lparr>g_error_buffer := snprintf 256 (''Device at index '' @ show_int i
                      @ '' is not valid'')\<rparr>))"
  using assms by (auto simp: dante_get_device_info_def set_error_def table_ok_def)

text \<open>Reading the table of the sample run in range and out of range, and a slot that is in range but not marked valid.\<close>

theorem get_device_info_by_index_witness:
  "table_ok scanned_state
   \<and> g_device_count scanned_state = 4
   \<and> dante_get_device_info 0 (Some zero_device_info) scanned_state
       = (0, Some (g_discovered_devices scanned_state ! 0), scanned_state)
   \<and> name (g_discovered_devices scanned_state ! 0) = ''amp-1''
   \<and> dante_get_device_info 4 (Some zero_device_info) scanned_state
       = (- 1, Some zero_device_info,
          scanned_state\<lparr>g_error_buffer := ''Invalid device index: 4 (available: 0-3)''\<rparr>)
   \<and> dante_get_device_info (- 1) (Some zero_device_info) scanned_state
       = (- 1, Some zero_device_info,
          scanned_state\<lparr>g_error_buffer := ''Invalid device index: -1 (available: 0-3)''\<rparr>)
   \<and> table_ok (initialised_state\<lparr>g_device_count := 1\<rparr>)
   \<and> dante_get_device_info 0 (Some (g_discovered_devices scanned_state ! 0))
        (initialised_state\<lparr>g_device_count := 1\<rparr>)
       = (- 1, Some (g_discovered_devices scanned_state ! 0),
          initialised_state\<lparr>g_device_count := 1,
                            g_error_buffer := ''Device at index 0 is not valid''\<rparr>)"
proof -
  note ok = scanned_table_ok
  have ok': "table_ok (initialised_state\<lparr>g_device_count := 1\<rparr>)"
    by (simp add: table_ok_def initialised_state_def MAX_DEVICES_def)
  have z: "is_valid (g_discovered_devices (initialised_state\<lparr>g_device_count := 1\<rparr>) ! nat 0) = 0"
    by (simp add: initialised_state_def MAX_DEVICES_def zero_device_info_def)
  have m1: "snprintf 256 (''Invalid device index: '' @ show_int 4 @ '' (available: 0-''
              @ show_int (4 - 1) @ '')'') = ''Invalid device index: 4 (available: 0-3)''"
    by code_simp
  have m2: "snprintf 256 (''Invalid device index: '' @ show_int (- 1) @ '' (available: 0-''
              @ show_int (4 - 1) @ '')'') = ''Invalid device index: -1 (available: 0-3)''"
    by code_simp
  have m3: "snprintf 256 (''Device at index '' @ show_int 0 @ '' is not valid'')
              = ''Device at index 0 is not valid''"
    by code_simp
  from get_device_info_by_index [OF ok, of 0 zero_device_info]
       get_device_info_by_index [OF ok, of 4 zero_device_info]
       get_device_info_by_index [OF ok, of "- 1" zero_device_info]
       get_device_info_by_index [OF ok', of 0 "g_discovered_devices scanned_state ! 0"]
       ok ok' z m1 m2 m3
  show ?thesis
    by (simp add: scanned_count scanned_valid scanned_names)
qed



text \<open>
  C5 (as amended). On an initialised wrapper whose SDK answers the three session calls with
  success, \<open>dante_start_device_scan\<close> returns 0; a second start, whatever the
  SDK would answer, returns 0 and changes nothing, and the SDK then holds
  exactly one session, which is browsing and is the one of the browse handle.
  \<open>dante_stop_device_scan\<close> returns 0 in every state and leaves the scanner
  inactive; a second stop returns 0 and changes nothing.
\<close>

theorem start_stop_idempotent:
  assumes "g_env s" and "scan_consistent s"
    and "new_result a = AUD_SUCCESS" and "max_sockets_result a = AUD_SUCCESS"
    and "start_result a = AUD_SUCCESS"
  shows "fst (dante_start_device_scan a s) = 0
     \<and> dante_start_device_scan a' (snd (dante_start_device_scan a s))
         = (0, snd (dante_start_device_scan a s))
     \<and> (\<exists>h. g_browse (snd (dante_start_device_scan a s)) = Some h
            \<and> browse_sessions (snd (dante_start_device_scan a s)) = [(h, True)])
     \<and> fst (dante_stop_device_scan t) = 0
     \<and> dante_stop_device_scan (snd (dante_stop_device_scan t))
         = (0, snd (dante_stop_device_scan t))
     \<and> g_browse (snd (dante_stop_device_scan t)) = None"
  using assms
  by (auto simp: dante_start_device_scan_def dante_stop_device_scan_def scan_consistent_def
      Let_def db_browse_start_def split: option.splits)

text \<open>Starting twice and stopping twice on the initialised wrapper.\<close>

theorem start_stop_idempotent_witness:
  "g_env initialised_state \<and> scan_consistent initialised_state
   \<and> fst (dante_start_device_scan all_succeed initialised_state) = 0
   \<and> dante_start_device_scan start_fails
        (snd (dante_start_device_scan all_succeed initialised_state))
       = (0, snd (dante_start_device_scan all_succeed initialised_state))
   \<and> g_browse (snd (dante_start_device_scan all_succeed initialised_state)) = Some 1
   \<and> browse_sessions (snd (dante_start_device_scan all_succeed initialised_state))
       = [(1, True)]
   \<and> fst (dante_stop_device_scan
             (snd (dante_start_device_scan all_succeed initialised_state))) = 0
   \<and> dante_stop_device_scan
        (snd (dante_stop_device_scan
                (snd (dante_start_device_scan all_succeed initialised_state))))
       = (0, snd (dante_stop_device_scan
                    (snd (dante_start_device_scan all_succeed initialised_state))))
   \<and> g_browse (snd (dante_stop_device_scan
                       (snd (dante_start_device_scan all_succeed initialised_state)))) = None"
proof -
  have h: "g_env initialised_state" "scan_consistent initialised_state"
    "new_result all_succeed = AUD_SUCCESS" "max_sockets_result all_succeed = AUD_SUCCESS"
    "start_result all_succeed = AUD_SUCCESS"
    by (simp_all add: initialised_state_def scan_consistent_def all_succeed_def AUD_SUCCESS_def)
  have g: "g_browse (snd (dante_start_device_scan all_succeed initialised_state)) = Some 1"
    "browse_sessions (snd (dante_start_device_scan all_succeed initialised_state)) = [(1, True)]"
    by (simp_all add: started_state)
  from start_stop_idempotent [OF h, of start_fails
      "snd (dante_start_device_scan all_succeed initialised_state)"] h(1,2) g
  show ?thesis by simp
qed

text \<open>
  Before \<^verbatim>\<open>dante_init\<close> both of two starts in a row fail, and no session
  exists; so do two starts on the initialised wrapper when the SDK refuses to
  start browsing.
\<close>

theorem start_scan_uninitialised_counterexample:
  "fst (dante_start_device_scan all_succeed startup_state) = - 1
   \<and> fst (dante_start_device_scan all_succeed
             (snd (dante_start_device_scan all_succeed startup_state))) = - 1
   \<and> g_browse (snd (dante_start_device_scan all_succeed
                       (snd (dante_start_device_scan all_succeed startup_state)))) = None
   \<and> browse_sessions (snd (dante_start_device_scan all_succeed
                       (snd (dante_start_device_scan all_succeed startup_state)))) = []
   \<and> g_error_buffer (snd (dante_start_device_scan all_succeed
                       (snd (dante_start_device_scan all_succeed startup_state))))
       = ''Dante API not initialized''
   \<and> fst (dante_start_device_scan start_fails initialised_state) = - 1
   \<and> fst (dante_start_device_scan start_fails
             (snd (dante_start_device_scan start_fails initialised_state))) = - 1
   \<and> browse_sessions (snd (dante_start_device_scan start_fails
                       (snd (dante_start_device_scan start_fails initialised_state)))) = []"
  by code_simp

text \<open>
  C6. When \<open>dante_start_device_scan\<close> on an initialised, inactive wrapper fails
  at session creation, at the socket limit or at the start of browsing, it
  returns -1 with the scanner inactive and the SDK holding the sessions it
  held before the call (the session that was created has been deleted); apart
  from the error message no global has changed.
\<close>

theorem start_scan_failure_unwinds:
  assumes "g_env s" and "g_browse s = None"
    and "new_result a \<noteq> AUD_SUCCESS \<or> max_sockets_result a \<noteq> AUD_SUCCESS
           \<or> start_result a \<noteq> AUD_SUCCESS"
  shows "fst (dante_start_device_scan a s) = - 1
     \<and> g_browse (snd (dante_start_device_scan a s)) = None
     \<and> browse_sessions (snd (dante_start_device_scan a s)) = browse_sessions s
     \<and> snd (dante_start_device_scan a s)
         = s\<lparr>g_error_buffer := g_error_buffer (snd (dante_start_device_scan a s))\<rparr>"
  using assms
  by (auto simp: dante_start_device_scan_def set_error_def Let_def delete_fresh)

text \<open>A failure at each of the three steps on the initialised wrapper.\<close>

theorem start_scan_failure_unwinds_witness:
  "g_env initialised_state \<and> g_browse initialised_state = None
   \<and> start_result start_fails = 7
   \<and> dante_start_device_scan start_fails initialised_state
       = (- 1, initialised_state\<lparr>g_error_buffer := ''Failed to start browse: 7''\<rparr>)
   \<and> browse_sessions (snd (dante_start_device_scan start_fails initialised_state)) = []
   \<and> max_sockets_result (start_fails\<lparr>max_sockets_result := 3\<rparr>) = 3
   \<and> dante_start_device_scan (start_fails\<lparr>max_sockets_result := 3\<rparr>) initialised_state
       = (- 1, initialised_state\<lparr>g_error_buffer := ''Failed to set max sockets: 3''\<rparr>)
   \<and> new_result (start_fails\<lparr>new_result := 9\<rparr>) = 9
   \<and> dante_start_device_scan (start_fails\<lparr>new_result := 9\<rparr>) initialised_state
       = (- 1, initialised_state\<lparr>g_error_buffer := ''Failed to create browse object: 9''\<rparr>)"
proof -
  have h: "g_env initialised_state" "g_browse initialised_state = None"
    by (simp_all add: initialised_state_def)
  have f1: "new_result start_fails \<noteq> AUD_SUCCESS \<or> max_sockets_result start_fails \<noteq> AUD_SUCCESS
           \<or> start_result start_fails \<noteq> AUD_SUCCESS"
    by (simp add: start_fails_def AUD_SUCCESS_def)
  have f2: "new_result (start_fails\<lparr>max_sockets_result := 3\<rparr>) \<noteq> AUD_SUCCESS
           \<or> max_sockets_result (start_fails\<lparr>max_sockets_result := 3\<rparr>) \<noteq> AUD_SUCCESS
           \<or> start_result (start_fails\<lparr>max_sockets_result := 3\<rparr>) \<noteq> AUD_SUCCESS"
    by (simp add: start_fails_def AUD_SUCCESS_def)
  have f3: "new_result (start_fails\<lparr>new_result := 9\<rparr>) \<noteq> AUD_SUCCESS
           \<or> max_sockets_result (start_fails\<lparr>new_result := 9\<rparr>) \<noteq> AUD_SUCCESS
           \<or> start_result (start_fails\<lparr>new_result := 9\<rparr>) \<noteq> AUD_SUCCESS"
    by (simp add: start_fails_def AUD_SUCCESS_def)
  have e1: "g_error_buffer (snd (dante_start_device_scan start_fails initialised_state))
              = ''Failed to start browse: 7''"
    by code_simp
  have e2: "g_error_buffer (snd (dante_start_device_scan (start_fails\<lparr>max_sockets_result := 3\<rparr>)
              initialised_state)) = ''Failed to set max sockets: 3''"
    by code_simp
  have e3: "g_error_buffer (snd (dante_start_device_scan (start_fails\<lparr>new_result := 9\<rparr>)
              initialised_state)) = ''Failed to create browse object: 9''"
    by code_simp
  have b: "browse_sessions initialised_state = []" by (simp add: initialised_state_def)
  have r1: "dante_start_device_scan start_fails initialised_state
       = (- 1, initialised_state\<lparr>g_error_buffer := ''Failed to start browse: 7''\<rparr>)"
    using start_scan_failure_unwinds [OF h f1] e1 by (metis prod.collapse)
  have r2: "dante_start_device_scan (start_fails\<lparr>max_sockets_result := 3\<rparr>) initialised_state
       = (- 1, initialised_state\<lparr>g_error_buffer := ''Failed to set max sockets: 3''\<rparr>)"
    using start_scan_failure_unwinds [OF h f2] e2 by (metis prod.collapse)
  have r3: "dante_start_device_scan (start_fails\<lparr>new_result := 9\<rparr>) initialised_state
       = (- 1, initialised_state\<lparr>g_error_buffer := ''Failed to create browse object: 9''\<rparr>)"
    using start_scan_failure_unwinds [OF h f3] e3 by (metis prod.collapse)
  have b: "browse_sessions (snd (dante_start_device_scan start_fails initialised_state)) = []"
    using start_scan_failure_unwinds [OF h f1] by (simp add: initialised_state_def)
  have c: "start_result start_fails = 7" "max_sockets_result (start_fails\<lparr>max_sockets_result := 3\<rparr>) = 3"
    "new_result (start_fails\<lparr>new_result := 9\<rparr>) = 9"
    by (simp_all add: start_fails_def)
  from h r1 r2 r3 b c show ?thesis by blast
qed

text \<open>
  C7. The waiting loop of \<open>dante_connect_local_device\<close> polls up to 50 times
  with one second of sleep after each poll: a local device that is first active
  at its eleventh poll is reported connected after 10 seconds of sleep, and a
  device that never becomes active is given up only after 50 seconds.
\<close>

theorem connect_local_device_waits_fifty_polls:
  "dante_connect_local_device slow_local initialised_state
     = (0, initialised_state\<lparr>g_device := True, g_device_ready := 1\<rparr>, 10)
   \<and> dante_connect_local_device dead_local initialised_state
     = (- 1, initialised_state\<lparr>g_device := True,
                                g_error_buffer := ''Device connection timeout''\<rparr>, 50)"
  by code_simp



text \<open>
  C9 (as amended). \<open>dante_stop_device_scan\<close> returns 0 and leaves the scanner
  without a browse handle; on an active scanner it stops and deletes the
  session of the handle (no session of that handle remains, and none at all
  when the SDK held just that one) and clears both scan flags; on an inactive
  scanner it changes nothing. It touches no other global: the device table and
  the count are as they were, so \<open>dante_get_device_info\<close> answers after the
  stop as it did before. \<open>dante_cleanup\<close>, which stops an active scan,
  destroys the records: the count is zero, every slot is zeroed, the flags are
  clear, and \<open>dante_get_device_info\<close> fails for every index.
\<close>

theorem stop_keeps_cleanup_destroys:
  "g_device_count (snd (dante_stop_device_scan s)) = g_device_count s
   \<and> g_discovered_devices (snd (dante_stop_device_scan s)) = g_discovered_devices s
   \<and> g_device_count (dante_cleanup s) = 0
   \<and> g_discovered_devices (dante_cleanup s) = replicate MAX_DEVICES zero_device_info
   \<and> g_browse (dante_cleanup s) = None
   \<and> fst (dante_get_device_info i info (dante_cleanup s)) = - 1
   \<and> fst (dante_stop_device_scan s) = 0
   \<and> g_browse (snd (dante_stop_device_scan s)) = None
   \<and> (g_browse s \<noteq> None \<longrightarrow>
         g_device_scan_active (snd (dante_stop_device_scan s)) = 0
         \<and> g_background_scanning (snd (dante_stop_device_scan s)) = 0)
   \<and> (\<forall>h. g_browse s = Some h \<longrightarrow>
         browse_sessions (snd (dante_stop_device_scan s))
           = filter (\<lambda>(k, b). k \<noteq> h) (browse_sessions s)
         \<and> h \<notin> fst ` set (browse_sessions (snd (dante_stop_device_scan s))))
   \<and> (g_browse s \<noteq> None \<and> scan_consistent s \<longrightarrow>
         browse_sessions (snd (dante_stop_device_scan s)) = [])
   \<and> (g_browse s = None \<longrightarrow> dante_stop_device_scan s = (0, s))
   \<and> snd (dante_stop_device_scan s)
       = s\<lparr>g_browse := None,
           g_device_scan_active := g_device_scan_active (snd (dante_stop_device_scan s)),
           g_background_scanning := g_background_scanning (snd (dante_stop_device_scan s)),
           browse_sessions := browse_sessions (snd (dante_stop_device_scan s))\<rparr>
   \<and> fst (dante_get_device_info i info (snd (dante_stop_device_scan s)))
       = fst (dante_get_device_info i info s)
   \<and> fst (snd (dante_get_device_info i info (snd (dante_stop_device_scan s))))
       = fst (snd (dante_get_device_info i info s))
   \<and> g_device_scan_active (dante_cleanup s) = 0
   \<and> g_background_scanning (dante_cleanup s) = 0
   \<and> (scan_consistent s \<longrightarrow> browse_sessions (dante_cleanup s) = [])"
proof -
  have flt: "\<And>h ss. filter (\<lambda>(k, b). k \<noteq> h)
                 (map (\<lambda>(k, b). if k = h then (k, False) else (k, b)) ss)
               = filter (\<lambda>(k, b). k \<noteq> (h::nat)) ss"
  proof -
    fix h :: nat and ss :: "(nat \<times> bool) list"
    show "filter (\<lambda>(k, b). k \<noteq> h) (map (\<lambda>(k, b). if k = h then (k, False) else (k, b)) ss)
            = filter (\<lambda>(k, b). k \<noteq> h) ss"
      by (induction ss) auto
  qed
  have keep: "g_device_count (snd (dante_stop_device_scan s)) = g_device_count s"
    "g_discovered_devices (snd (dante_stop_device_scan s)) = g_discovered_devices s"
    by (simp_all add: dante_stop_device_scan_def split: option.splits)
  have clean: "g_device_count (dante_cleanup s) = 0"
    "g_discovered_devices (dante_cleanup s) = replicate MAX_DEVICES zero_device_info"
    "g_browse (dante_cleanup s) = None"
    "g_device_scan_active (dante_cleanup s) = 0"
    "g_background_scanning (dante_cleanup s) = 0"
    by (simp_all add: dante_cleanup_def dante_stop_device_scan_def Let_def split: option.splits)
  have cget: "fst (dante_get_device_info i info (dante_cleanup s)) = - 1"
    by (simp add: dante_get_device_info_def clean split: option.splits)
  have ret: "fst (dante_stop_device_scan s) = 0" "g_browse (snd (dante_stop_device_scan s)) = None"
    by (simp_all add: dante_stop_device_scan_def split: option.splits)
  have flags: "g_browse s \<noteq> None \<longrightarrow>
         g_device_scan_active (snd (dante_stop_device_scan s)) = 0
         \<and> g_background_scanning (snd (dante_stop_device_scan s)) = 0"
    by (auto simp: dante_stop_device_scan_def)
  have sess: "\<forall>h. g_browse s = Some h \<longrightarrow>
         browse_sessions (snd (dante_stop_device_scan s))
           = filter (\<lambda>(k, b). k \<noteq> h) (browse_sessions s)
         \<and> h \<notin> fst ` set (browse_sessions (snd (dante_stop_device_scan s)))"
    by (auto simp: dante_stop_device_scan_def db_browse_delete_def db_browse_stop_def flt)
  have none: "g_browse s \<noteq> None \<and> scan_consistent s \<longrightarrow>
         browse_sessions (snd (dante_stop_device_scan s)) = []"
    by (auto simp: dante_stop_device_scan_def db_browse_delete_def db_browse_stop_def
        scan_consistent_def)
  have noop: "g_browse s = None \<longrightarrow> dante_stop_device_scan s = (0, s)"
    by (simp add: dante_stop_device_scan_def)
  have frame: "snd (dante_stop_device_scan s)
       = s\<lparr>g_browse := None,
           g_device_scan_active := g_device_scan_active (snd (dante_stop_device_scan s)),
           g_background_scanning := g_background_scanning (snd (dante_stop_device_scan s)),
           browse_sessions := browse_sessions (snd (dante_stop_device_scan s))\<rparr>"
    by (cases "g_browse s") (simp_all add: dante_stop_device_scan_def)
  have rd: "fst (dante_get_device_info i info (snd (dante_stop_device_scan s)))
       = fst (dante_get_device_info i info s)"
    "fst (snd (dante_get_device_info i info (snd (dante_stop_device_scan s))))
       = fst (snd (dante_get_device_info i info s))"
    by (simp_all add: dante_get_device_info_def keep split: option.splits)
  have csess: "scan_consistent s \<longrightarrow> browse_sessions (dante_cleanup s) = []"
    by (auto simp: dante_cleanup_def dante_stop_device_scan_def Let_def db_browse_delete_def
        db_browse_stop_def scan_consistent_def split: option.splits)
  from keep clean cget ret flags sess none noop frame rd csess show ?thesis by blast
qed

text \<open>Stopping, stopping again and cleaning up after the sample run.\<close>

theorem stop_keeps_cleanup_destroys_witness:
  "g_browse scanned_state = Some 1
   \<and> scan_consistent scanned_state
   \<and> g_device_scan_active scanned_state = 1
   \<and> g_background_scanning scanned_state = 1
   \<and> browse_sessions scanned_state = [(1, True)]
   \<and> fst (dante_stop_device_scan scanned_state) = 0
   \<and> g_browse (snd (dante_stop_device_scan scanned_state)) = None
   \<and> g_device_scan_active (snd (dante_stop_device_scan scanned_state)) = 0
   \<and> g_background_scanning (snd (dante_stop_device_scan scanned_state)) = 0
   \<and> browse_sessions (snd (dante_stop_device_scan scanned_state)) = []
   \<and> g_device_count (snd (dante_stop_device_scan scanned_state)) = 4
   \<and> g_browse (snd (dante_stop_device_scan scanned_state)) = None
   \<and> dante_stop_device_scan (snd (dante_stop_device_scan scanned_state))
       = (0, snd (dante_stop_device_scan scanned_state))
   \<and> g_device_count (dante_cleanup scanned_state) = 0
   \<and> g_browse (dante_cleanup scanned_state) = None
   \<and> browse_sessions (dante_cleanup scanned_state) = []
   \<and> fst (dante_get_device_info 0 (Some zero_device_info) (dante_cleanup scanned_state)) = - 1"
proof -
  have c: "scan_consistent scanned_state"
    by (simp add: scan_consistent_def scanned_scan)
  have b: "g_browse scanned_state \<noteq> None" by (simp add: scanned_scan)
  note t = stop_keeps_cleanup_destroys [of scanned_state 0 "Some zero_device_info"]
  note u = stop_keeps_cleanup_destroys
             [of "snd (dante_stop_device_scan scanned_state)" 0 "Some zero_device_info"]
  from t b c have
    "fst (dante_stop_device_scan scanned_state) = 0"
    "g_browse (snd (dante_stop_device_scan scanned_state)) = None"
    "g_device_scan_active (snd (dante_stop_device_scan scanned_state)) = 0"
    "g_background_scanning (snd (dante_stop_device_scan scanned_state)) = 0"
    "browse_sessions (snd (dante_stop_device_scan scanned_state)) = []"
    "g_device_count (snd (dante_stop_device_scan scanned_state)) = g_device_count scanned_state"
    "g_device_count (dante_cleanup scanned_state) = 0"
    "g_browse (dante_cleanup scanned_state) = None"
    "browse_sessions (dante_cleanup scanned_state) = []"
    "fst (dante_get_device_info 0 (Some zero_device_info) (dante_cleanup scanned_state)) = - 1"
    by blast+
  moreover from u this(2) have
    "dante_stop_device_scan (snd (dante_stop_device_scan scanned_state))
       = (0, snd (dante_stop_device_scan scanned_state))"
    by blast
  ultimately show ?thesis using c by (simp add: scanned_scan scanned_count)
qed

text \<open>After the scan of the sample run is stopped, the count is still four and the first record is still handed out.\<close>

theorem records_survive_stop_counterexample:
  "g_browse scanned_state = Some 1
   \<and> fst (dante_stop_device_scan scanned_state) = 0
   \<and> dante_get_discovered_device_count (snd (dante_stop_device_scan scanned_state)) = 4
   \<and> fst (dante_get_device_info 0 (Some zero_device_info)
             (snd (dante_stop_device_scan scanned_state))) = 0
   \<and> fst (snd (dante_get_device_info 0 (Some zero_device_info)
                  (snd (dante_stop_device_scan scanned_state))))
       = Some \<lparr>id_num = 1, name = ''amp-1'', model = ''ULTIMOX4'', product_version = ''N/A'',
               dante_version = ''4.2.1'', ip_address = ''10.0.0.5'', link_speed = - 1,
               secondary_ip = [], secondary_speed = 0, is_valid = 1\<rparr>"
  by code_simp

end
